theory Spec2Isabelle
  imports Complex_Main "HOL-Library.Sublist"
begin

section \<open>Data model of \<open>web_video_server.cpp\<close>\<close>

text \<open>
  The embedding follows \<open>src/src/web_video_server.cpp\<close>. Everything a function does
  beyond returning is made explicit: a handler returns the list of effects it performed
  (log lines, what it wrote to the connection, the streamers it created and started)
  together with the updated server object.
\<close>

datatype http_status = ok | not_found

record HttpRequest =
  uri :: string
  path :: string
  query_params :: "(string \<times> string) list"

text \<open>
  Modelled from the spec: \<open>HttpRequest::get_query_param_value_or_default\<close> lives in
  \<open>http_server/http_request.hpp\<close>, which is not among the sources. The spec reads
  "\<open>type\<close> (default "mjpeg")": the value of the named query parameter, or the default
  when the request has none.
\<close>

definition get_query_param_value_or_default :: "HttpRequest \<Rightarrow> string \<Rightarrow> string \<Rightarrow> string" where
  "get_query_param_value_or_default request param_name default_value =
     (case map_of (query_params request) param_name of
        Some v \<Rightarrow> v
      | None \<Rightarrow> default_value)"

text \<open>
  An \<open>ImageStreamer\<close> as this file sees it: \<open>getTopic()\<close>, \<open>isInactive()\<close> and the
  connection it was created for. The class itself is declared in a header that is not
  among the sources; a connection is named by a number.
\<close>

record ImageStreamer =
  topic :: string
  connection :: nat
  inactive :: bool

definition isInactive :: "ImageStreamer \<Rightarrow> bool" where
  "isInactive s = inactive s"

definition getTopic :: "ImageStreamer \<Rightarrow> string" where
  "getTopic s = topic s"

record ImageStreamerType =
  create_streamer :: "HttpRequest \<Rightarrow> nat \<Rightarrow> ImageStreamer"
  create_viewer :: "HttpRequest \<Rightarrow> string"

datatype effect =
    RosInfo string
  | RosWarn string
  | ReplyHeaders nat http_status "(string \<times> string) list"
  | ConnWrite nat string
  | StockReply nat http_status
  | StreamerCreated ImageStreamer
  | StreamerStarted ImageStreamer

record TopicInfo =
  name :: string
  datatype_name :: string

text \<open>
  A \<open>boost::shared_ptr\<close>: it points to an object or it is empty. The handlers put only
  pointers to the streamers they have just created into the vector.
\<close>

type_synonym 'a shared_ptr = "'a option"

text \<open>
  The server object. \<open>subscriber_mutex\<close> is \<open>True\<close> while another thread holds the
  mutex. \<open>cleanup_timer\<close> is the period in seconds of the timer that the constructor
  binds to \<open>cleanup_inactive_streams\<close>, \<open>http_port\<close> and \<open>http_threads\<close> are what the
  constructor hands to \<open>HttpServer\<close>.
\<close>

record WebVideoServer =
  stream_types :: "string \<rightharpoonup> ImageStreamerType"
  image_subscribers :: "ImageStreamer shared_ptr list"
  subscriber_mutex :: bool
  ros_threads :: int
  cleanup_timer :: real
  http_port :: int
  http_threads :: int

section \<open>The constructor\<close>

text \<open>
  \<open>NodeHandle::param(name, var, default)\<close> of roscpp: the parameter's value when the
  parameter server has one, the default otherwise. The parameter server is the map
  \<open>params\<close>.
\<close>

definition param :: "(string \<rightharpoonup> int) \<Rightarrow> string \<Rightarrow> int \<Rightarrow> int" where
  "param params param_name default_value =
     (case params param_name of Some v \<Rightarrow> v | None \<Rightarrow> default_value)"

text \<open>
  The three streamer types come from headers that are not among the sources; the
  constructor takes them as parameters. The timer is created with
  \<open>ros::Duration(0.5)\<close>, whatever the parameters are.
\<close>

definition new_WebVideoServer ::
  "(string \<rightharpoonup> int) \<Rightarrow> ImageStreamerType \<Rightarrow> ImageStreamerType \<Rightarrow> ImageStreamerType
     \<Rightarrow> WebVideoServer" where
  "new_WebVideoServer private_nh MjpegStreamerType Vp8StreamerType LibavStreamerType =
     \<lparr> stream_types = [''mjpeg'' \<mapsto> MjpegStreamerType,
                       ''vp8'' \<mapsto> Vp8StreamerType,
                       ''h264'' \<mapsto> LibavStreamerType],
       image_subscribers = [],
       subscriber_mutex = False,
       ros_threads = param private_nh ''ros_threads'' 2,
       cleanup_timer = 0.5,
       http_port = param private_nh ''port'' 8080,
       http_threads = param private_nh ''server_threads'' 1 \<rparr>"

section \<open>\<open>std::remove_if\<close> and \<open>cleanup_inactive_streams\<close>\<close>

text \<open>
  \<open>std::remove_if(first, last, pred)\<close> as the standard library writes it: find the first
  element that satisfies \<open>pred\<close>; from there on, assign every element that does not
  satisfy it to the position \<open>result\<close> and advance \<open>result\<close>. It returns the vector as the
  loop leaves it, and \<open>result\<close>, the new logical end.

  The sources do not say which dialect the file is compiled as, and the assignment
  \<open>*result = *first\<close> depends on it: in C++03 it copies the \<open>shared_ptr\<close>, and the slot
  it was read from keeps its pointer; from C++11 on the library moves, and the slot it
  was read from is left empty. In the loop \<open>result\<close> is always below \<open>first\<close>.

  The predicate is \<open>boost::bind(&ImageStreamer::isInactive, _1)\<close>: it calls the member
  through the pointer. Calling through an empty pointer ends the process; the functions
  return \<open>None\<close> there.
\<close>

datatype dialect = cxx03 | cxx11

definition assign :: "dialect \<Rightarrow> 'a shared_ptr list \<Rightarrow> nat \<Rightarrow> nat \<Rightarrow> 'a shared_ptr list" where
  "assign d v result first =
     (case d of
        cxx03 \<Rightarrow> v[result := v ! first]
      | cxx11 \<Rightarrow> (v[result := v ! first])[first := None])"

fun find_if :: "('a \<Rightarrow> bool) \<Rightarrow> 'a shared_ptr list \<Rightarrow> nat option" where
  "find_if pred [] = Some 0"
| "find_if pred (None # ps) = None"
| "find_if pred (Some x # ps) =
     (if pred x then Some 0
      else (case find_if pred ps of None \<Rightarrow> None | Some n \<Rightarrow> Some (Suc n)))"

function remove_if_loop ::
  "dialect \<Rightarrow> ('a \<Rightarrow> bool) \<Rightarrow> 'a shared_ptr list \<Rightarrow> nat \<Rightarrow> nat
     \<Rightarrow> ('a shared_ptr list \<times> nat) option" where
  "remove_if_loop d pred v result first =
     (if first < length v then
        (case v ! first of
           None \<Rightarrow> None
         | Some x \<Rightarrow>
             if \<not> pred x
             then remove_if_loop d pred (assign d v result first) (Suc result) (Suc first)
             else remove_if_loop d pred v result (Suc first))
      else Some (v, result))"
  by pat_completeness auto
termination
  by (relation "measure (\<lambda>(d, pred, v, result, first). length v - first)")
    (auto simp: assign_def split: dialect.splits)

declare remove_if_loop.simps [simp del]

definition remove_if ::
  "dialect \<Rightarrow> ('a \<Rightarrow> bool) \<Rightarrow> 'a shared_ptr list \<Rightarrow> ('a shared_ptr list \<times> nat) option" where
  "remove_if d pred v =
     (case find_if pred v of
        None \<Rightarrow> None
      | Some first \<Rightarrow>
          if first = length v then Some (v, first)
          else remove_if_loop d pred v first (Suc first))"

text \<open>
  The loop that logs: \<open>(*itr)->getTopic()\<close> for every slot from \<open>new_end\<close> to the end of
  the vector. On an empty pointer the process ends, with the lines it has logged so far.
\<close>

datatype fault = null_dereference "effect list"

fun log_removed :: "ImageStreamer shared_ptr list \<Rightarrow> effect list \<Rightarrow> fault + effect list" where
  "log_removed [] logged = Inr logged"
| "log_removed (None # itr) logged = Inl (null_dereference logged)"
| "log_removed (Some s # itr) logged =
     log_removed itr (logged @ [RosInfo (''Removed Stream: '' @ getTopic s)])"

text \<open>
  \<open>cleanup_inactive_streams\<close>: \<open>try_to_lock\<close> succeeds when no other thread holds the
  mutex. Then \<open>remove_if\<close> runs over the vector, the loop logs the slots from \<open>new_end\<close>
  on, and \<open>erase\<close> cuts the vector at \<open>new_end\<close>. The scoped lock is released on return,
  so the mutex is as it was. The result is \<open>Inl\<close> when the process ended on an empty
  pointer, and otherwise the lines logged and the server.
\<close>

definition cleanup_inactive_streams ::
  "dialect \<Rightarrow> WebVideoServer \<Rightarrow> fault + effect list \<times> WebVideoServer" where
  "cleanup_inactive_streams d srv =
     (if \<not> subscriber_mutex srv then
        (case remove_if d isInactive (image_subscribers srv) of
           None \<Rightarrow> Inl (null_dereference [])
         | Some (v, new_end) \<Rightarrow>
             (case log_removed (drop new_end v) [] of
                Inl f \<Rightarrow> Inl f
              | Inr logged \<Rightarrow> Inr (logged, srv\<lparr>image_subscribers := take new_end v\<rparr>)))
      else Inr ([], srv))"

section \<open>The request handlers\<close>

text \<open>
  \<open>handle_stream\<close> and \<open>handle_snapshot\<close> take the mutex with a blocking lock before
  \<open>push_back\<close>: they wait for it, so the streamer is appended in every case.
\<close>

definition handle_stream :: "HttpRequest \<Rightarrow> nat \<Rightarrow> WebVideoServer \<Rightarrow> effect list \<times> WebVideoServer" where
  "handle_stream request conn srv =
     (let type_name = get_query_param_value_or_default request ''type'' ''mjpeg'' in
      case stream_types srv type_name of
        Some stream_type \<Rightarrow>
          (let streamer = create_streamer stream_type request conn in
           ([StreamerCreated streamer, StreamerStarted streamer],
            srv\<lparr>image_subscribers := image_subscribers srv @ [Some streamer]\<rparr>))
      | None \<Rightarrow> ([StockReply conn not_found], srv))"

definition handle_snapshot ::
  "(HttpRequest \<Rightarrow> nat \<Rightarrow> ImageStreamer) \<Rightarrow> HttpRequest \<Rightarrow> nat \<Rightarrow> WebVideoServer
     \<Rightarrow> effect list \<times> WebVideoServer" where
  "handle_snapshot JpegSnapshotStreamer request conn srv =
     (let streamer = JpegSnapshotStreamer request conn in
      ([StreamerCreated streamer, StreamerStarted streamer],
       srv\<lparr>image_subscribers := image_subscribers srv @ [Some streamer]\<rparr>))"

definition handle_stream_viewer :: "HttpRequest \<Rightarrow> nat \<Rightarrow> WebVideoServer \<Rightarrow> effect list \<times> WebVideoServer" where
  "handle_stream_viewer request conn srv =
     (let type_name = get_query_param_value_or_default request ''type'' ''mjpeg'' in
      case stream_types srv type_name of
        Some stream_type \<Rightarrow>
          (let topic_name = get_query_param_value_or_default request ''topic'' '''' in
           ([ReplyHeaders conn ok
               [(''Connection'', ''close''),
                (''Server'', ''web_video_server''),
                (''Content-type'', ''text/html;'')],
             ConnWrite conn
               (''<html><head><title>'' @ topic_name @ ''</title></head><body>''
                @ ''<h1>'' @ topic_name @ ''</h1>''
                @ create_viewer stream_type request
                @ ''</body></html>'')],
            srv))
      | None \<Rightarrow> ([StockReply conn not_found], srv))"

text \<open>
  \<open>handle_list_streams\<close>. \<open>topics\<close> is what \<open>ros::master::getTopics\<close> returned. The first
  loop sorts the topic names into \<open>image_topics\<close> and \<open>camera_info_topics\<close>.
\<close>

definition image_message_type :: string where
  "image_message_type = ''sensor_msgs/Image''"

definition camera_info_message_type :: string where
  "camera_info_message_type = ''sensor_msgs/CameraInfo''"

fun sort_topics :: "TopicInfo list \<Rightarrow> string list \<times> string list \<Rightarrow> string list \<times> string list" where
  "sort_topics [] (image_topics, camera_info_topics) = (image_topics, camera_info_topics)"
| "sort_topics (t # ts) (image_topics, camera_info_topics) =
     (if datatype_name t = image_message_type
      then sort_topics ts (image_topics @ [name t], camera_info_topics)
      else if datatype_name t = camera_info_message_type
      then sort_topics ts (image_topics, camera_info_topics @ [name t])
      else sort_topics ts (image_topics, camera_info_topics))"

text \<open>
  \<open>boost::starts_with(input, test)\<close> and \<open>boost::algorithm::ends_with(input, test)\<close>.
\<close>

definition starts_with :: "string \<Rightarrow> string \<Rightarrow> bool" where
  "starts_with input test = prefix test input"

definition ends_with :: "string \<Rightarrow> string \<Rightarrow> bool" where
  "ends_with input test = suffix test input"

text \<open>
  The inner loop over \<open>image_topics\<close> for one \<open>base_topic\<close>: a topic that starts with the
  base is written as a list item and erased from the vector, any other topic is stepped
  over. It returns the strings written to the connection, in order, and the vector it
  leaves.
\<close>

fun list_image_topics :: "string \<Rightarrow> string list \<Rightarrow> string list \<times> string list" where
  "list_image_topics base_topic [] = ([], [])"
| "list_image_topics base_topic (image_topic # rest) =
     (let (written, image_topics) = list_image_topics base_topic rest in
      if starts_with image_topic base_topic
      then ([''<li><a href=\"/stream_viewer?topic='',
             image_topic,
             ''\">'',
             drop (length base_topic) image_topic,
             ''</a> ('',
             ''<a href=\"/snapshot?topic='',
             image_topic,
             ''\">Snapshot</a>)'',
             ''</li>''] @ written,
            image_topics)
      else (written, image_topic # image_topics))"

text \<open>
  The \<open>BOOST_FOREACH\<close> over \<open>camera_info_topics\<close>, with the vector of image topics that
  the earlier iterations left. The closing \<open></li>\<close> is written in every iteration, after
  the \<open>if\<close>.
\<close>

fun list_camera_info_topics :: "string list \<Rightarrow> string list \<Rightarrow> string list \<times> string list" where
  "list_camera_info_topics [] image_topics = ([], image_topics)"
| "list_camera_info_topics (camera_info_topic # rest) image_topics =
     (if ends_with camera_info_topic ''/camera_info''
      then
        (let base_topic = take (length camera_info_topic - length ''camera_info'') camera_info_topic;
             (items, image_topics') = list_image_topics base_topic image_topics;
             (written, image_topics'') = list_camera_info_topics rest image_topics'
         in ([''<li>'', base_topic, ''<ul>''] @ items @ [''</ul>'', ''</li>''] @ written,
             image_topics''))
      else
        (let (written, image_topics') = list_camera_info_topics rest image_topics
         in ([''</li>''] @ written, image_topics')))"

definition handle_list_streams ::
  "TopicInfo list \<Rightarrow> HttpRequest \<Rightarrow> nat \<Rightarrow> WebVideoServer \<Rightarrow> effect list \<times> WebVideoServer" where
  "handle_list_streams topics request conn srv =
     (let (image_topics, camera_info_topics) = sort_topics topics ([], []) in
      (ReplyHeaders conn ok
         [(''Connection'', ''close''),
          (''Server'', ''web_video_server''),
          (''Cache-Control'',
           ''no-cache, no-store, must-revalidate, pre-check=0, post-check=0, max-age=0''),
          (''Pragma'', ''no-cache''),
          (''Content-type'', ''text/html;'')]
       # map (ConnWrite conn)
           ([''<html><head><title>ROS Image Topic List</title></head><body><h1>Available ROS Image Topics:</h1>'',
             ''<ul>'']
            @ fst (list_camera_info_topics camera_info_topics image_topics)
            @ [''</ul></body></html>'']),
       srv))"

section \<open>The router: \<open>ros_connection_logger\<close>\<close>

text \<open>
  What a C++ call can throw: an exception of a class derived from \<open>std::exception\<close>,
  with its \<open>what()\<close>, or a value of any other type. A request handler either returns
  or throws; in both cases it has performed some effects and left a state.
\<close>

datatype throwable = std_exception string | other_throwable

type_synonym 'w handler =
  "HttpRequest \<Rightarrow> nat \<Rightarrow> 'w \<Rightarrow> throwable option \<times> effect list \<times> 'w"

text \<open>
  \<open>ros_connection_logger\<close> logs the URI, calls \<open>forward\<close> inside
  \<open>try { ... } catch(std::exception& e)\<close> and logs \<open>e.what()\<close> as a warning. The
  \<open>catch\<close> clause names \<open>std::exception\<close>: anything else that \<open>forward\<close> throws leaves
  the function.
\<close>

definition ros_connection_logger :: "'w handler \<Rightarrow> 'w handler" where
  "ros_connection_logger forward request conn w =
     (case forward request conn w of
        (None, effects, w') \<Rightarrow>
          (None, RosInfo (''Handling Request: '' @ uri request) # effects, w')
      | (Some (std_exception what), effects, w') \<Rightarrow>
          (None,
           RosInfo (''Handling Request: '' @ uri request) # effects
             @ [RosWarn (''Error Handling Request: '' @ what)],
           w')
      | (Some other_throwable, effects, w') \<Rightarrow>
          (Some other_throwable, RosInfo (''Handling Request: '' @ uri request) # effects, w'))"

text \<open>The handlers of this file return; none of them has a \<open>throw\<close>.\<close>

definition returns :: "(HttpRequest \<Rightarrow> nat \<Rightarrow> 'w \<Rightarrow> effect list \<times> 'w) \<Rightarrow> 'w handler" where
  "returns h request conn w = (case h request conn w of (effects, w') \<Rightarrow> (None, effects, w'))"

definition stock_reply :: "http_status \<Rightarrow> HttpRequest \<Rightarrow> nat \<Rightarrow> 'w \<Rightarrow> effect list \<times> 'w" where
  "stock_reply status request conn w = ([StockReply conn status], w)"

text \<open>
  Modelled from the spec: \<open>HttpRequestHandlerGroup\<close> (\<open>addHandlerForPath\<close>, the default
  handler) is declared in a header that is not among the sources. The spec reads "a
  fixed, immutable-after-startup mapping from path string to handler": the handler
  registered for the request's path, the default handler when there is none.
\<close>

definition HttpRequestHandlerGroup :: "'w handler \<Rightarrow> (string \<times> 'w handler) list \<Rightarrow> 'w handler" where
  "HttpRequestHandlerGroup default_handler handlers request conn w =
     (case map_of handlers (path request) of
        Some h \<Rightarrow> h request conn w
      | None \<Rightarrow> default_handler request conn w)"

text \<open>
  The handler the constructor gives to \<open>HttpServer\<close>: \<open>handler_group_\<close> with its four
  paths, wrapped in \<open>ros_connection_logger\<close>.
\<close>

definition handler_group ::
  "TopicInfo list \<Rightarrow> (HttpRequest \<Rightarrow> nat \<Rightarrow> ImageStreamer) \<Rightarrow> WebVideoServer handler" where
  "handler_group topics JpegSnapshotStreamer =
     HttpRequestHandlerGroup (returns (stock_reply not_found))
       [(''/'', returns (handle_list_streams topics)),
        (''/stream'', returns handle_stream),
        (''/stream_viewer'', returns handle_stream_viewer),
        (''/snapshot'', returns (handle_snapshot JpegSnapshotStreamer))]"

definition request_handler ::
  "TopicInfo list \<Rightarrow> (HttpRequest \<Rightarrow> nat \<Rightarrow> ImageStreamer) \<Rightarrow> WebVideoServer handler" where
  "request_handler topics JpegSnapshotStreamer =
     ros_connection_logger (handler_group topics JpegSnapshotStreamer)"

text \<open>
  Modelled from the spec: the loop of a request-handling thread is in \<open>HttpServer\<close>,
  which is not among the sources. The spec reads "the request-handling thread survives
  to serve future requests": the thread hands one request after the other to the
  handler, and an exception that leaves the handler ends it, the requests behind it
  unserved.
\<close>

fun serve :: "'w handler \<Rightarrow> (HttpRequest \<times> nat) list \<Rightarrow> 'w \<Rightarrow> throwable option \<times> effect list \<times> 'w" where
  "serve h [] w = (None, [], w)"
| "serve h ((request, conn) # later) w =
     (case h request conn w of
        (None, effects, w') \<Rightarrow>
          (case serve h later w' of (r, effects', w'') \<Rightarrow> (r, effects @ effects', w''))
      | (Some t, effects, w') \<Rightarrow> (Some t, effects, w'))"

section \<open>The directory page as the specification describes it\<close>

text \<open>
  Section 4.2 of the specification, in its own words: for each metadata topic that ends
  in \<open>/camera_info\<close>, the base is the name with \<open>camera_info\<close> stripped; the data topics
  that start with the base are claimed and removed from the working set. A metadata
  topic without the suffix is skipped. This is the definition the handler is compared
  with.
\<close>

text \<open>The names of the discovered topics of one message type, in discovery order.\<close>

definition names_of_type :: "string \<Rightarrow> TopicInfo list \<Rightarrow> string list" where
  "names_of_type message_type topics =
     map name (filter (\<lambda>t. datatype_name t = message_type) topics)"

datatype directory_entry = Group string "string list" | Skipped

fun spec_pair_topics :: "string list \<Rightarrow> string list \<Rightarrow> directory_entry list" where
  "spec_pair_topics [] dataTopics = []"
| "spec_pair_topics (m # metadataTopics) dataTopics =
     (if suffix ''/camera_info'' m
      then (let base = take (length m - length ''camera_info'') m in
            Group base (filter (prefix base) dataTopics)
              # spec_pair_topics metadataTopics (filter (\<lambda>t. \<not> prefix base t) dataTopics))
      else Skipped # spec_pair_topics metadataTopics dataTopics)"

definition spec_unclaimed :: "string list \<Rightarrow> string list \<Rightarrow> string list" where
  "spec_unclaimed metadataTopics dataTopics =
     filter
       (\<lambda>t. \<not> list_ex
          (\<lambda>m. suffix ''/camera_info'' m
                \<and> prefix (take (length m - length ''camera_info'') m) t)
          metadataTopics)
       dataTopics"

text \<open>
  What the handler writes for an entry: the strings are those of the source. A list item
  has the viewer link, labelled with the topic's name behind the base, and the snapshot
  link.
\<close>

definition render_item :: "string \<Rightarrow> string \<Rightarrow> string list" where
  "render_item base image_topic =
     [''<li><a href=\"/stream_viewer?topic='',
      image_topic,
      ''\">'',
      drop (length base) image_topic,
      ''</a> ('',
      ''<a href=\"/snapshot?topic='',
      image_topic,
      ''\">Snapshot</a>)'',
      ''</li>'']"

fun render_entry :: "directory_entry \<Rightarrow> string list" where
  "render_entry (Group base claimed) =
     [''<li>'', base, ''<ul>''] @ concat (map (render_item base) claimed) @ [''</ul>'', ''</li>'']"
| "render_entry Skipped = [''</li>'']"

text \<open>
  The reply of \<open>handle_list_streams\<close> around the list: the headers, the head of the page
  and \<open><ul>\<close>, then the strings of the list, then the end of the page.
\<close>

definition directory_reply :: "nat \<Rightarrow> string list \<Rightarrow> effect list" where
  "directory_reply conn written =
     ReplyHeaders conn ok
       [(''Connection'', ''close''),
        (''Server'', ''web_video_server''),
        (''Cache-Control'',
         ''no-cache, no-store, must-revalidate, pre-check=0, post-check=0, max-age=0''),
        (''Pragma'', ''no-cache''),
        (''Content-type'', ''text/html;'')]
     # map (ConnWrite conn)
         ([''<html><head><title>ROS Image Topic List</title></head><body><h1>Available ROS Image Topics:</h1>'',
           ''<ul>'']
          @ written
          @ [''</ul></body></html>''])"

section \<open>Sample inputs\<close>

text \<open>
  Concrete values on which the theorems below are evaluated: a streamer type, the server
  as the constructor builds it with no parameter set, and two streamers, the first
  inactive and the second active.
\<close>

definition sample_type :: ImageStreamerType where
  "sample_type =
     \<lparr> create_streamer =
         (\<lambda>request conn.
            \<lparr> topic = get_query_param_value_or_default request ''topic'' [],
              connection = conn,
              inactive = False \<rparr>),
       create_viewer = (\<lambda>request. ''<img></img>'') \<rparr>"

definition sample_server :: WebVideoServer where
  "sample_server = new_WebVideoServer Map.empty sample_type sample_type sample_type"

definition cam1_stream :: ImageStreamer where
  "cam1_stream = \<lparr> topic = ''/cam1/image_raw'', connection = 1, inactive = True \<rparr>"

definition cam2_stream :: ImageStreamer where
  "cam2_stream = \<lparr> topic = ''/cam2/image_raw'', connection = 2, inactive = False \<rparr>"

text \<open>
  A request with the given path and query parameters, a handler that throws on every
  call, and a handler group with such a handler on \<open>/stream\<close> beside the snapshot handler.
\<close>

definition sample_request :: "string \<Rightarrow> (string \<times> string) list \<Rightarrow> HttpRequest" where
  "sample_request p q = \<lparr> uri = p, path = p, query_params = q \<rparr>"

definition failing_handler :: "throwable \<Rightarrow> 'w handler" where
  "failing_handler t request conn w = (Some t, [], w)"

definition faulty_group :: "throwable \<Rightarrow> WebVideoServer handler" where
  "faulty_group t =
     HttpRequestHandlerGroup (returns (stock_reply not_found))
       [(''/stream'', failing_handler t),
        (''/snapshot'', returns (handle_snapshot (create_streamer sample_type)))]"

text \<open>
  The topics of the specification's example in one discovery order, with a topic of
  another type among them.
\<close>

definition sample_topics :: "TopicInfo list" where
  "sample_topics =
     [\<lparr> name = ''/cam1/camera_info'', datatype_name = ''sensor_msgs/CameraInfo'' \<rparr>,
      \<lparr> name = ''/cam1/image_raw'', datatype_name = ''sensor_msgs/Image'' \<rparr>,
      \<lparr> name = ''/rosout'', datatype_name = ''rosgraph_msgs/Log'' \<rparr>,
      \<lparr> name = ''/cam2/image_raw'', datatype_name = ''sensor_msgs/Image'' \<rparr>,
      \<lparr> name = ''/cam2/camera_info'', datatype_name = ''sensor_msgs/CameraInfo'' \<rparr>,
      \<lparr> name = ''/cam2/image_raw/compressed'', datatype_name = ''sensor_msgs/Image'' \<rparr>,
      \<lparr> name = ''/other/image_raw'', datatype_name = ''sensor_msgs/Image'' \<rparr>]"

text \<open>A topic of the camera info type whose name does not end in \<open>/camera_info\<close>.\<close>

definition sensor_info :: TopicInfo where
  "sensor_info = \<lparr> name = ''/sensor/info'', datatype_name = ''sensor_msgs/CameraInfo'' \<rparr>"

section \<open>\<open>std::remove_if\<close> on a vector of pointers\<close>

text \<open>
  On a vector without empty pointers \<open>remove_if\<close> returns in both dialects. The new end
  is the number of elements that do not satisfy the predicate, and the slots below it
  hold these elements in their order. In C++03 the slots from the new end on are what
  they were.
\<close>

lemma length_assign: "length (assign d v r f) = length v"
  by (simp add: assign_def split: dialect.splits)

lemma find_if_pointers:
  "find_if p (map Some xs) = Some (length (takeWhile (\<lambda>x. \<not> p x) xs))"
  by (induction xs) simp_all

lemma assign_below:
  assumes "r < f" "f < length v"
  shows "take (Suc r) (assign d v r f) = take r v @ [v ! f]"
    and "drop (Suc f) (assign d v r f) = drop (Suc f) v"
proof -
  from assms have rl: "r < length v" by simp
  show "take (Suc r) (assign d v r f) = take r v @ [v ! f]"
    using assms rl by (cases d) (simp_all add: assign_def take_Suc_conv_app_nth)
  show "drop (Suc f) (assign d v r f) = drop (Suc f) v"
    using assms by (cases d) (simp_all add: assign_def)
qed

lemma remove_if_loop_pointers:
  assumes "r < f" "f \<le> length v" "drop f v = map Some ys"
  shows "\<exists>v'. remove_if_loop d p v r f = Some (v', r + length (filter (\<lambda>x. \<not> p x) ys))
           \<and> length v' = length v
           \<and> take (r + length (filter (\<lambda>x. \<not> p x) ys)) v'
               = take r v @ map Some (filter (\<lambda>x. \<not> p x) ys)
           \<and> (d = cxx03 \<longrightarrow>
                drop (r + length (filter (\<lambda>x. \<not> p x) ys)) v'
                  = drop (r + length (filter (\<lambda>x. \<not> p x) ys)) v)"
  using assms
proof (induction ys arbitrary: v r f)
  case Nil
  then have "f = length v" by simp
  then show ?case by (subst remove_if_loop.simps) simp
next
  case (Cons y ys)
  from Cons.prems(3) have fl: "f < length v"
    by (metis drop_eq_Nil2 list.distinct(1) list.map_disc_iff not_le_imp_less)
  then have d: "drop f v = v ! f # drop (Suc f) v"
    by (simp add: Cons_nth_drop_Suc)
  with Cons.prems(3) have vf: "v ! f = Some y" and rest: "drop (Suc f) v = map Some ys"
    by simp_all
  show ?case
  proof (cases "p y")
    case True
    from Cons.prems(1) fl rest have
      "\<exists>v'. remove_if_loop d p v r (Suc f) = Some (v', r + length (filter (\<lambda>x. \<not> p x) ys))
           \<and> length v' = length v
           \<and> take (r + length (filter (\<lambda>x. \<not> p x) ys)) v'
               = take r v @ map Some (filter (\<lambda>x. \<not> p x) ys)
           \<and> (d = cxx03 \<longrightarrow>
                drop (r + length (filter (\<lambda>x. \<not> p x) ys)) v'
                  = drop (r + length (filter (\<lambda>x. \<not> p x) ys)) v)"
      by (intro Cons.IH) simp_all
    with True fl vf show ?thesis
      by (subst remove_if_loop.simps) simp
  next
    case False
    let ?w = "assign d v r f"
    let ?n = "length (filter (\<lambda>x. \<not> p x) ys)"
    have t: "take (Suc r) ?w = take r v @ [Some y]"
      using assign_below(1) [OF Cons.prems(1) fl, of d] vf by simp
    have dw: "drop (Suc f) ?w = map Some ys"
      using assign_below(2) [OF Cons.prems(1) fl, of d] rest by simp
    have "\<exists>v'. remove_if_loop d p ?w (Suc r) (Suc f) = Some (v', Suc r + ?n)
           \<and> length v' = length ?w
           \<and> take (Suc r + ?n) v' = take (Suc r) ?w @ map Some (filter (\<lambda>x. \<not> p x) ys)
           \<and> (d = cxx03 \<longrightarrow> drop (Suc r + ?n) v' = drop (Suc r + ?n) ?w)"
      using Cons.prems(1) fl dw by (intro Cons.IH) (simp_all add: length_assign)
    then obtain v' where
      1: "remove_if_loop d p ?w (Suc r) (Suc f) = Some (v', Suc r + ?n)"
      and 2: "length v' = length ?w"
      and 3: "take (Suc r + ?n) v' = take (Suc r) ?w @ map Some (filter (\<lambda>x. \<not> p x) ys)"
      and 4: "d = cxx03 \<longrightarrow> drop (Suc r + ?n) v' = drop (Suc r + ?n) ?w"
      by blast
    have 5: "d = cxx03 \<longrightarrow> drop (Suc r + ?n) ?w = drop (Suc r + ?n) v"
      by (simp add: assign_def)
    have "remove_if_loop d p v r f = Some (v', Suc r + ?n)"
      using False fl vf 1 by (subst remove_if_loop.simps) simp
    with False 2 3 4 5 t show ?thesis
      by (simp add: length_assign)
  qed
qed

lemma filter_takeWhile_same:
  "filter (\<lambda>x. \<not> p x) (takeWhile (\<lambda>x. \<not> p x) xs) = takeWhile (\<lambda>x. \<not> p x) xs"
  by (induction xs) simp_all

lemma remove_if_pointers:
  "\<exists>v'. remove_if d p (map Some xs) = Some (v', length (filter (\<lambda>x. \<not> p x) xs))
       \<and> take (length (filter (\<lambda>x. \<not> p x) xs)) v' = map Some (filter (\<lambda>x. \<not> p x) xs)
       \<and> (d = cxx03 \<longrightarrow>
            drop (length (filter (\<lambda>x. \<not> p x) xs)) v'
              = map Some (drop (length (filter (\<lambda>x. \<not> p x) xs)) xs))"
proof (cases "length (takeWhile (\<lambda>x. \<not> p x) xs) = length xs")
  case True
  then have "takeWhile (\<lambda>x. \<not> p x) xs = xs"
    by (metis takeWhile_eq_take take_all order_refl)
  then have "filter (\<lambda>x. \<not> p x) xs = xs"
    using filter_takeWhile_same [of p xs] by simp
  with True show ?thesis
    by (simp add: remove_if_def find_if_pointers)
next
  case False
  let ?k = "length (takeWhile (\<lambda>x. \<not> p x) xs)"
  let ?rest = "drop (Suc ?k) xs"
  let ?n = "length (filter (\<lambda>x. \<not> p x) ?rest)"
  have kl: "?k < length xs"
    using False length_takeWhile_le [of "\<lambda>x. \<not> p x" xs] by simp
  then have hit: "p (xs ! ?k)"
    using nth_length_takeWhile [of "\<lambda>x. \<not> p x" xs] by simp
  have split: "xs = takeWhile (\<lambda>x. \<not> p x) xs @ xs ! ?k # ?rest"
    using kl by (metis Cons_nth_drop_Suc append_take_drop_id takeWhile_eq_take)
  have "filter (\<lambda>x. \<not> p x) xs
        = filter (\<lambda>x. \<not> p x) (takeWhile (\<lambda>x. \<not> p x) xs @ xs ! ?k # ?rest)"
    by (rule arg_cong [OF split])
  also have "\<dots> = takeWhile (\<lambda>x. \<not> p x) xs @ filter (\<lambda>x. \<not> p x) ?rest"
    using hit by (simp add: filter_takeWhile_same)
  finally have f: "filter (\<lambda>x. \<not> p x) xs
                   = takeWhile (\<lambda>x. \<not> p x) xs @ filter (\<lambda>x. \<not> p x) ?rest" .
  then have n: "length (filter (\<lambda>x. \<not> p x) xs) = ?k + ?n"
    by (metis length_append)
  have tk: "take ?k (map Some xs) = map Some (takeWhile (\<lambda>x. \<not> p x) xs)"
    by (metis take_map takeWhile_eq_take)
  have "\<exists>v'. remove_if_loop d p (map Some xs) ?k (Suc ?k) = Some (v', ?k + ?n)
           \<and> length v' = length (map Some xs)
           \<and> take (?k + ?n) v' = take ?k (map Some xs) @ map Some (filter (\<lambda>x. \<not> p x) ?rest)
           \<and> (d = cxx03 \<longrightarrow> drop (?k + ?n) v' = drop (?k + ?n) (map Some xs))"
    using kl by (intro remove_if_loop_pointers) (simp_all add: drop_map)
  then obtain v' where
    1: "remove_if_loop d p (map Some xs) ?k (Suc ?k) = Some (v', ?k + ?n)"
    and 3: "take (?k + ?n) v' = take ?k (map Some xs) @ map Some (filter (\<lambda>x. \<not> p x) ?rest)"
    and 4: "d = cxx03 \<longrightarrow> drop (?k + ?n) v' = drop (?k + ?n) (map Some xs)"
    by blast
  have "remove_if d p (map Some xs) = Some (v', ?k + ?n)"
    using False 1 by (simp add: remove_if_def find_if_pointers)
  moreover have "take (?k + ?n) v' = map Some (filter (\<lambda>x. \<not> p x) xs)"
    using 3 tk f by simp
  moreover have "d = cxx03 \<longrightarrow> drop (?k + ?n) v' = map Some (drop (?k + ?n) xs)"
    using 4 by (simp add: drop_map)
  ultimately show ?thesis
    unfolding n by blast
qed

lemma log_removed_pointers:
  "log_removed (map Some ss) logged
     = Inr (logged @ map (\<lambda>s. RosInfo (''Removed Stream: '' @ getTopic s)) ss)"
  by (induction ss arbitrary: logged) simp_all

text \<open>
  Whenever the sweep returns, in either dialect, the vector holds the streamers that
  were not inactive, and nothing else of the server has changed.
\<close>

lemma cleanup_returned:
  assumes "\<not> subscriber_mutex srv"
    and "image_subscribers srv = map Some streamers"
    and "cleanup_inactive_streams d srv = Inr (logged, srv')"
  shows "srv' = srv\<lparr>image_subscribers := map Some (filter (\<lambda>s. \<not> isInactive s) streamers)\<rparr>"
proof -
  obtain v' where
    "remove_if d isInactive (map Some streamers)
       = Some (v', length (filter (\<lambda>s. \<not> isInactive s) streamers))"
    and "take (length (filter (\<lambda>s. \<not> isInactive s) streamers)) v'
       = map Some (filter (\<lambda>s. \<not> isInactive s) streamers)"
    using remove_if_pointers [of d isInactive streamers] by blast
  with assms show ?thesis
    by (auto simp: cleanup_inactive_streams_def split: sum.splits)
qed

text \<open>
  Compiled as C++03 the sweep returns on every vector without empty pointers. It has
  logged the topics of the streamers in the last slots of the vector, as many as there
  were inactive streamers.
\<close>

lemma cleanup_cxx03:
  assumes "\<not> subscriber_mutex srv"
    and "image_subscribers srv = map Some streamers"
  shows "cleanup_inactive_streams cxx03 srv
     = Inr (map (\<lambda>s. RosInfo (''Removed Stream: '' @ getTopic s))
              (drop (length (filter (\<lambda>s. \<not> isInactive s) streamers)) streamers),
            srv\<lparr>image_subscribers := map Some (filter (\<lambda>s. \<not> isInactive s) streamers)\<rparr>)"
proof -
  obtain v' where
    "remove_if cxx03 isInactive (map Some streamers)
       = Some (v', length (filter (\<lambda>s. \<not> isInactive s) streamers))"
    and "take (length (filter (\<lambda>s. \<not> isInactive s) streamers)) v'
       = map Some (filter (\<lambda>s. \<not> isInactive s) streamers)"
    and "drop (length (filter (\<lambda>s. \<not> isInactive s) streamers)) v'
       = map Some (drop (length (filter (\<lambda>s. \<not> isInactive s) streamers)) streamers)"
    using remove_if_pointers [of cxx03 isInactive streamers] by blast
  with assms show ?thesis
    by (simp add: cleanup_inactive_streams_def log_removed_pointers)
qed

lemma sample_server_subscribers: "image_subscribers sample_server = []"
  by (simp add: sample_server_def new_WebVideoServer_def)

lemma cleanup_cxx03_twice:
  assumes "\<not> subscriber_mutex srv"
  shows "cleanup_inactive_streams cxx03
           (srv\<lparr>image_subscribers := map Some (filter (\<lambda>s. \<not> isInactive s) streamers)\<rparr>)
         = Inr ([], srv\<lparr>image_subscribers := map Some (filter (\<lambda>s. \<not> isInactive s) streamers)\<rparr>)"
proof -
  let ?once = "srv\<lparr>image_subscribers := map Some (filter (\<lambda>s. \<not> isInactive s) streamers)\<rparr>"
  have u: "\<not> subscriber_mutex ?once" using assms by simp
  have r: "image_subscribers ?once = map Some (filter (\<lambda>s. \<not> isInactive s) streamers)"
    by simp
  show ?thesis
    by (simp add: cleanup_cxx03 [OF u r])
qed

lemma sample_server_mutex: "\<not> subscriber_mutex sample_server"
  by (simp add: sample_server_def new_WebVideoServer_def)

section \<open>The sweep of the registry\<close>

text \<open>
  C2. The claim: when the sweep gets the lock, the registry afterwards holds exactly the
  sessions whose \<open>isInactive()\<close> was false. The code does not get that far on every
  registry. With \<open>cam1_stream\<close> (inactive) before \<open>cam2_stream\<close> (active) and the lock
  free, the registry should end as \<open>cam2_stream\<close> alone. Compiled as C++11,
  \<open>remove_if\<close> moves the pointer to \<open>cam2_stream\<close> into the first slot and leaves the
  second slot empty; the logging loop calls \<open>getTopic()\<close> through that empty pointer and
  the process ends before \<open>erase\<close>, with nothing logged.
\<close>

theorem cleanup_cxx11_ends_before_erase:
  "\<not> subscriber_mutex (sample_server\<lparr>image_subscribers := [Some cam1_stream, Some cam2_stream]\<rparr>)
   \<and> filter (\<lambda>s. \<not> isInactive s) [cam1_stream, cam2_stream] = [cam2_stream]
   \<and> cleanup_inactive_streams cxx11
        (sample_server\<lparr>image_subscribers := [Some cam1_stream, Some cam2_stream]\<rparr>)
     = Inl (null_dereference [])"
  by (simp add: sample_server_mutex cleanup_inactive_streams_def remove_if_def
      remove_if_loop.simps assign_def isInactive_def cam1_stream_def cam2_stream_def)

text \<open>
  C5. When the lock is not available the sweep does nothing, in either dialect: it logs
  nothing and the server, the registry with it, is as it was.
\<close>

theorem cleanup_locked_does_nothing:
  "subscriber_mutex srv \<Longrightarrow> cleanup_inactive_streams d srv = Inr ([], srv)"
  by (simp add: cleanup_inactive_streams_def)

theorem cleanup_locked_does_nothing_witness:
  "subscriber_mutex
     (sample_server\<lparr>image_subscribers := [Some cam1_stream, Some cam2_stream], subscriber_mutex := True\<rparr>)
   \<and> cleanup_inactive_streams cxx03
       (sample_server\<lparr>image_subscribers := [Some cam1_stream, Some cam2_stream], subscriber_mutex := True\<rparr>)
     = Inr ([], sample_server\<lparr>image_subscribers := [Some cam1_stream, Some cam2_stream],
                               subscriber_mutex := True\<rparr>)
   \<and> cleanup_inactive_streams cxx11
       (sample_server\<lparr>image_subscribers := [Some cam1_stream, Some cam2_stream], subscriber_mutex := True\<rparr>)
     = Inr ([], sample_server\<lparr>image_subscribers := [Some cam1_stream, Some cam2_stream],
                               subscriber_mutex := True\<rparr>)"
  using cleanup_locked_does_nothing
      [of "sample_server\<lparr>image_subscribers := [Some cam1_stream, Some cam2_stream],
                           subscriber_mutex := True\<rparr>" cxx03]
    cleanup_locked_does_nothing
      [of "sample_server\<lparr>image_subscribers := [Some cam1_stream, Some cam2_stream],
                           subscriber_mutex := True\<rparr>" cxx11]
  by simp


text \<open>
  C6. The claim: the identifiers logged by a sweep are, as a multiset, the topics of the
  sessions the sweep removes. The code logs the slots that stand behind \<open>new_end\<close> after
  \<open>remove_if\<close>, and \<open>remove_if\<close> does not move the removed elements there. With the
  registry holding \<open>cam1_stream\<close> (inactive) before \<open>cam2_stream\<close> (active), the sweep
  compiled as C++03 removes \<open>cam1_stream\<close>, whose topic is \<open>/cam1/image_raw\<close>, and logs
  \<open>Removed Stream: /cam2/image_raw\<close>, the topic of the session it keeps. Compiled as
  C++11 it logs nothing: the process ends on the empty pointer in the slot it reads.
\<close>

theorem cleanup_logs_the_tail:
  "cleanup_inactive_streams cxx03
       (sample_server\<lparr>image_subscribers := [Some cam1_stream, Some cam2_stream]\<rparr>)
     = Inr ([RosInfo ''Removed Stream: /cam2/image_raw''],
            sample_server\<lparr>image_subscribers := [Some cam2_stream]\<rparr>)
   \<and> cleanup_inactive_streams cxx11
       (sample_server\<lparr>image_subscribers := [Some cam1_stream, Some cam2_stream]\<rparr>)
     = Inl (null_dereference [])
   \<and> isInactive cam1_stream \<and> getTopic cam1_stream = ''/cam1/image_raw''
   \<and> \<not> isInactive cam2_stream \<and> getTopic cam2_stream = ''/cam2/image_raw''"
  by (simp add: sample_server_mutex cleanup_inactive_streams_def remove_if_def
      remove_if_loop.simps assign_def isInactive_def getTopic_def cam1_stream_def
      cam2_stream_def)

section \<open>The defaults of the constructor\<close>

text \<open>
  C9. A parameter that is not set takes its default: port 8080, one thread for the HTTP
  server, two threads for the ROS spinner. The period of the cleanup timer is half a
  second, 500 ms, whatever the parameters are.
\<close>

theorem defaults_of_the_constructor:
  "(private_nh ''port'' = None
      \<longrightarrow> http_port (new_WebVideoServer private_nh mjpeg vp8 h264) = 8080)
   \<and> (private_nh ''server_threads'' = None
      \<longrightarrow> http_threads (new_WebVideoServer private_nh mjpeg vp8 h264) = 1)
   \<and> (private_nh ''ros_threads'' = None
      \<longrightarrow> ros_threads (new_WebVideoServer private_nh mjpeg vp8 h264) = 2)
   \<and> cleanup_timer (new_WebVideoServer private_nh mjpeg vp8 h264) * 1000 = 500"
  by (simp add: new_WebVideoServer_def param_def)

theorem defaults_of_the_constructor_witness:
  "http_port sample_server = 8080 \<and> http_threads sample_server = 1
   \<and> ros_threads sample_server = 2 \<and> cleanup_timer sample_server * 1000 = 500
   \<and> [''port'' \<mapsto> 9090] ''server_threads'' = None
   \<and> http_threads (new_WebVideoServer [''port'' \<mapsto> 9090] sample_type sample_type sample_type) = 1
   \<and> cleanup_timer (new_WebVideoServer [''port'' \<mapsto> 9090] sample_type sample_type sample_type) * 1000 = 500"
  using defaults_of_the_constructor [of Map.empty sample_type sample_type sample_type]
    defaults_of_the_constructor [of "[''port'' \<mapsto> 9090]" sample_type sample_type sample_type]
  by (simp add: sample_server_def)

section \<open>A stream type that is not registered\<close>

text \<open>
  C1. When the \<open>type\<close> parameter of the request, \<open>mjpeg\<close> when the request has none,
  names no registered stream type, \<open>handle_stream\<close> and \<open>handle_stream_viewer\<close> do one
  thing: they send the stock reply \<open>not_found\<close>. No streamer is created or started, and
  the server, the registry of streamers with it, is unchanged.
\<close>

theorem unknown_codec_not_found:
  assumes "stream_types srv (get_query_param_value_or_default request ''type'' ''mjpeg'') = None"
  shows "handle_stream request conn srv = ([StockReply conn not_found], srv)
         \<and> handle_stream_viewer request conn srv = ([StockReply conn not_found], srv)"
  using assms by (simp add: handle_stream_def handle_stream_viewer_def)

theorem unknown_codec_not_found_witness:
  "stream_types sample_server
     (get_query_param_value_or_default
        (sample_request ''/stream'' [(''type'', ''theora''), (''topic'', ''/cam1/image_raw'')])
        ''type'' ''mjpeg'') = None
   \<and> handle_stream
        (sample_request ''/stream'' [(''type'', ''theora''), (''topic'', ''/cam1/image_raw'')])
        7 sample_server
      = ([StockReply 7 not_found], sample_server)
   \<and> handle_stream_viewer
        (sample_request ''/stream'' [(''type'', ''theora''), (''topic'', ''/cam1/image_raw'')])
        7 sample_server
      = ([StockReply 7 not_found], sample_server)"
proof -
  have h: "stream_types sample_server
     (get_query_param_value_or_default
        (sample_request ''/stream'' [(''type'', ''theora''), (''topic'', ''/cam1/image_raw'')])
        ''type'' ''mjpeg'') = None"
    by (simp add: sample_server_def new_WebVideoServer_def sample_request_def
        get_query_param_value_or_default_def)
  show ?thesis using h unknown_codec_not_found [OF h, of 7] by simp
qed

section \<open>What \<open>ros_connection_logger\<close> catches\<close>

text \<open>
  C4, as the claim states it, fails: a handler that throws a value whose type is not
  derived from \<open>std::exception\<close> is not caught. The exception leaves
  \<open>ros_connection_logger\<close>, no warning is logged, and the request behind it, on another
  path, is not served.
\<close>

theorem logger_lets_other_throwables_through:
  "ros_connection_logger (faulty_group other_throwable) (sample_request ''/stream'' []) 1 sample_server
     = (Some other_throwable, [RosInfo ''Handling Request: /stream''], sample_server)
   \<and> serve (ros_connection_logger (faulty_group other_throwable))
        [(sample_request ''/stream'' [], 1), (sample_request ''/snapshot'' [(''topic'', ''/cam1/image_raw'')], 2)]
        sample_server
     = (Some other_throwable, [RosInfo ''Handling Request: /stream''], sample_server)"
  by (simp add: ros_connection_logger_def faulty_group_def HttpRequestHandlerGroup_def
      failing_handler_def sample_request_def)

text \<open>
  C4, amended. When the handler throws an exception derived from \<open>std::exception\<close>,
  \<open>ros_connection_logger\<close> returns normally: it has logged the request, kept what the
  handler did before it threw, and logged \<open>what()\<close> as a warning. A later request that
  the handler serves is then served, from the state the failed call left.
\<close>

theorem logger_isolates_std_exception:
  assumes "forward request conn w = (Some (std_exception what), effects, w')"
  shows "ros_connection_logger forward request conn w
           = (None,
              RosInfo (''Handling Request: '' @ uri request) # effects
                @ [RosWarn (''Error Handling Request: '' @ what)],
              w')
         \<and> (forward later_request later_conn w' = (None, later_effects, w_end) \<longrightarrow>
              serve (ros_connection_logger forward) [(request, conn), (later_request, later_conn)] w
                = (None,
                   RosInfo (''Handling Request: '' @ uri request) # effects
                     @ [RosWarn (''Error Handling Request: '' @ what)]
                     @ RosInfo (''Handling Request: '' @ uri later_request) # later_effects,
                   w_end))"
  using assms by (simp add: ros_connection_logger_def)

theorem logger_isolates_std_exception_witness:
  "faulty_group (std_exception ''no such topic'') (sample_request ''/stream'' []) 1 sample_server
     = (Some (std_exception ''no such topic''), [], sample_server)
   \<and> faulty_group (std_exception ''no such topic'')
        (sample_request ''/snapshot'' [(''topic'', ''/cam1/image_raw'')]) 2 sample_server
     = (None,
        [StreamerCreated \<lparr>topic = ''/cam1/image_raw'', connection = 2, inactive = False\<rparr>,
         StreamerStarted \<lparr>topic = ''/cam1/image_raw'', connection = 2, inactive = False\<rparr>],
        sample_server\<lparr>image_subscribers :=
          [Some \<lparr>topic = ''/cam1/image_raw'', connection = 2, inactive = False\<rparr>]\<rparr>)
   \<and> serve (ros_connection_logger (faulty_group (std_exception ''no such topic'')))
        [(sample_request ''/stream'' [], 1),
         (sample_request ''/snapshot'' [(''topic'', ''/cam1/image_raw'')], 2)]
        sample_server
     = (None,
        [RosInfo ''Handling Request: /stream'',
         RosWarn ''Error Handling Request: no such topic'',
         RosInfo ''Handling Request: /snapshot'',
         StreamerCreated \<lparr>topic = ''/cam1/image_raw'', connection = 2, inactive = False\<rparr>,
         StreamerStarted \<lparr>topic = ''/cam1/image_raw'', connection = 2, inactive = False\<rparr>],
        sample_server\<lparr>image_subscribers :=
          [Some \<lparr>topic = ''/cam1/image_raw'', connection = 2, inactive = False\<rparr>]\<rparr>)"
proof -
  have h1: "faulty_group (std_exception ''no such topic'') (sample_request ''/stream'' []) 1 sample_server
     = (Some (std_exception ''no such topic''), [], sample_server)"
    by (simp add: faulty_group_def HttpRequestHandlerGroup_def failing_handler_def
        sample_request_def)
  have h2: "faulty_group (std_exception ''no such topic'')
        (sample_request ''/snapshot'' [(''topic'', ''/cam1/image_raw'')]) 2 sample_server
     = (None,
        [StreamerCreated \<lparr>topic = ''/cam1/image_raw'', connection = 2, inactive = False\<rparr>,
         StreamerStarted \<lparr>topic = ''/cam1/image_raw'', connection = 2, inactive = False\<rparr>],
        sample_server\<lparr>image_subscribers :=
          [Some \<lparr>topic = ''/cam1/image_raw'', connection = 2, inactive = False\<rparr>]\<rparr>)"
    by (simp add: faulty_group_def HttpRequestHandlerGroup_def returns_def handle_snapshot_def
        sample_request_def sample_type_def get_query_param_value_or_default_def Let_def
        sample_server_subscribers)
  note t = logger_isolates_std_exception
        [where forward = "faulty_group (std_exception ''no such topic'')"
           and request = "sample_request ''/stream'' []" and conn = 1 and w = sample_server
           and later_request = "sample_request ''/snapshot'' [(''topic'', ''/cam1/image_raw'')]"
           and later_conn = 2
           and later_effects =
             "[StreamerCreated \<lparr>topic = ''/cam1/image_raw'', connection = 2, inactive = False\<rparr>,
               StreamerStarted \<lparr>topic = ''/cam1/image_raw'', connection = 2, inactive = False\<rparr>]"
           and w_end =
             "sample_server\<lparr>image_subscribers :=
                [Some \<lparr>topic = ''/cam1/image_raw'', connection = 2, inactive = False\<rparr>]\<rparr>",
           OF h1]
  from t h2 have s: "serve (ros_connection_logger (faulty_group (std_exception ''no such topic'')))
        [(sample_request ''/stream'' [], 1),
         (sample_request ''/snapshot'' [(''topic'', ''/cam1/image_raw'')], 2)]
        sample_server
     = (None,
        RosInfo (''Handling Request: '' @ uri (sample_request ''/stream'' [])) # []
          @ [RosWarn (''Error Handling Request: '' @ ''no such topic'')]
          @ RosInfo (''Handling Request: ''
               @ uri (sample_request ''/snapshot'' [(''topic'', ''/cam1/image_raw'')]))
          # [StreamerCreated \<lparr>topic = ''/cam1/image_raw'', connection = 2, inactive = False\<rparr>,
             StreamerStarted \<lparr>topic = ''/cam1/image_raw'', connection = 2, inactive = False\<rparr>],
        sample_server\<lparr>image_subscribers :=
          [Some \<lparr>topic = ''/cam1/image_raw'', connection = 2, inactive = False\<rparr>]\<rparr>)"
    by blast
  have u: "uri (sample_request ''/stream'' []) = ''/stream''"
    "uri (sample_request ''/snapshot'' [(''topic'', ''/cam1/image_raw'')]) = ''/snapshot''"
    by (simp_all add: sample_request_def)
  show ?thesis
    unfolding h1 h2 s u by simp
qed

section \<open>The directory page\<close>

lemma message_types_differ: "image_message_type \<noteq> camera_info_message_type"
  by (simp add: image_message_type_def camera_info_message_type_def)

lemma sort_topics_eq:
  "sort_topics topics (is, cs)
     = (is @ names_of_type image_message_type topics,
        cs @ names_of_type camera_info_message_type topics)"
  using message_types_differ
  by (induction topics arbitrary: "is" cs) (auto simp: names_of_type_def)

lemma list_image_topics_eq:
  "list_image_topics base image_topics
     = (concat (map (render_item base) (filter (prefix base) image_topics)),
        filter (\<lambda>t. \<not> prefix base t) image_topics)"
  by (induction image_topics) (simp_all add: starts_with_def render_item_def)

lemma spec_unclaimed_Cons:
  "spec_unclaimed (m # ms) ts
     = (if suffix ''/camera_info'' m
        then spec_unclaimed ms
               (filter (\<lambda>t. \<not> prefix (take (length m - length ''camera_info'') m) t) ts)
        else spec_unclaimed ms ts)"
  by (auto simp: spec_unclaimed_def intro: filter_cong)

lemma list_camera_info_topics_eq:
  "list_camera_info_topics cams imgs
     = (concat (map render_entry (spec_pair_topics cams imgs)), spec_unclaimed cams imgs)"
proof (induction cams arbitrary: imgs)
  case Nil
  show ?case by (simp add: spec_unclaimed_def)
next
  case (Cons m ms)
  show ?case
    by (simp add: Cons.IH spec_unclaimed_Cons list_image_topics_eq ends_with_def Let_def
        del: spec_unclaimed_def)
qed

lemma list_camera_info_topics_append:
  "list_camera_info_topics (xs @ ys) imgs
     = (fst (list_camera_info_topics xs imgs)
          @ fst (list_camera_info_topics ys (snd (list_camera_info_topics xs imgs))),
        snd (list_camera_info_topics ys (snd (list_camera_info_topics xs imgs))))"
  by (induction xs arbitrary: imgs) (simp_all add: Let_def split: prod.splits)

lemma handle_list_streams_eq:
  "handle_list_streams topics request conn srv
     = (directory_reply conn
          (fst (list_camera_info_topics (names_of_type camera_info_message_type topics)
                  (names_of_type image_message_type topics))),
        srv)"
  by (simp add: handle_list_streams_def directory_reply_def sort_topics_eq)

lemma names_of_type_insert:
  "names_of_type ty (pre @ t # post)
     = names_of_type ty pre @ (if datatype_name t = ty then [name t] else []) @ names_of_type ty post"
  by (simp add: names_of_type_def)

lemma names_of_type_append:
  "names_of_type ty (pre @ post) = names_of_type ty pre @ names_of_type ty post"
  by (simp add: names_of_type_def)

lemma sample_groups:
  "fst (list_camera_info_topics (names_of_type camera_info_message_type sample_topics)
          (names_of_type image_message_type sample_topics))
     = render_entry (Group ''/cam1/'' [''/cam1/image_raw''])
       @ render_entry (Group ''/cam2/'' [''/cam2/image_raw'', ''/cam2/image_raw/compressed''])"
proof -
  have cams: "names_of_type camera_info_message_type sample_topics
     = [''/cam1/camera_info'', ''/cam2/camera_info'']"
    by (simp add: names_of_type_def sample_topics_def camera_info_message_type_def)
  have imgs: "names_of_type image_message_type sample_topics
     = [''/cam1/image_raw'', ''/cam2/image_raw'', ''/cam2/image_raw/compressed'', ''/other/image_raw'']"
    by (simp add: names_of_type_def sample_topics_def image_message_type_def)
  have pairs: "spec_pair_topics [''/cam1/camera_info'', ''/cam2/camera_info'']
       [''/cam1/image_raw'', ''/cam2/image_raw'', ''/cam2/image_raw/compressed'', ''/other/image_raw'']
     = [Group ''/cam1/'' [''/cam1/image_raw''],
        Group ''/cam2/'' [''/cam2/image_raw'', ''/cam2/image_raw/compressed'']]"
    by (simp add: suffix_def)
  show ?thesis
    by (simp only: list_camera_info_topics_eq cams imgs pairs) simp
qed

lemma sensor_info_facts:
  "datatype_name sensor_info = camera_info_message_type"
  "\<not> ends_with (name sensor_info) ''/camera_info''"
  by (simp_all add: sensor_info_def camera_info_message_type_def ends_with_def suffix_def)

text \<open>
  C3. The page that \<open>handle_list_streams\<close> writes is the rendering of the pairing the
  specification describes: for every camera info topic that ends in \<open>/camera_info\<close>, in
  discovery order, a group under the base (the name without \<open>camera_info\<close>) with one
  list item, viewer link and snapshot link, per image topic of the working set that
  starts with the base; the claimed topics leave the working set, so an earlier base
  wins. What no base claims is left in the working set and is not written. For the
  topics of the example, \<open>/cam1/image_raw\<close> stands under \<open>/cam1/\<close>, \<open>/cam2/image_raw\<close>
  and \<open>/cam2/image_raw/compressed\<close> under \<open>/cam2/\<close>, and \<open>/other/image_raw\<close> is left out.
\<close>

theorem directory_pairs_topics:
  "handle_list_streams topics request conn srv
     = (directory_reply conn
          (concat (map render_entry
             (spec_pair_topics (names_of_type camera_info_message_type topics)
                (names_of_type image_message_type topics)))),
        srv)
   \<and> snd (list_camera_info_topics (names_of_type camera_info_message_type topics)
            (names_of_type image_message_type topics))
     = spec_unclaimed (names_of_type camera_info_message_type topics)
         (names_of_type image_message_type topics)
   \<and> names_of_type camera_info_message_type sample_topics
     = [''/cam1/camera_info'', ''/cam2/camera_info'']
   \<and> names_of_type image_message_type sample_topics
     = [''/cam1/image_raw'', ''/cam2/image_raw'', ''/cam2/image_raw/compressed'', ''/other/image_raw'']
   \<and> handle_list_streams sample_topics request conn srv
     = (directory_reply conn
          (render_entry (Group ''/cam1/'' [''/cam1/image_raw''])
           @ render_entry (Group ''/cam2/'' [''/cam2/image_raw'', ''/cam2/image_raw/compressed''])),
        srv)
   \<and> spec_unclaimed [''/cam1/camera_info'', ''/cam2/camera_info'']
       [''/cam1/image_raw'', ''/cam2/image_raw'', ''/cam2/image_raw/compressed'', ''/other/image_raw'']
     = [''/other/image_raw'']"
proof -
  have cams: "names_of_type camera_info_message_type sample_topics
     = [''/cam1/camera_info'', ''/cam2/camera_info'']"
    by (simp add: names_of_type_def sample_topics_def camera_info_message_type_def)
  have imgs: "names_of_type image_message_type sample_topics
     = [''/cam1/image_raw'', ''/cam2/image_raw'', ''/cam2/image_raw/compressed'', ''/other/image_raw'']"
    by (simp add: names_of_type_def sample_topics_def image_message_type_def)
  have pairs: "spec_pair_topics [''/cam1/camera_info'', ''/cam2/camera_info'']
       [''/cam1/image_raw'', ''/cam2/image_raw'', ''/cam2/image_raw/compressed'', ''/other/image_raw'']
     = [Group ''/cam1/'' [''/cam1/image_raw''],
        Group ''/cam2/'' [''/cam2/image_raw'', ''/cam2/image_raw/compressed'']]"
    by (simp add: suffix_def)
  have rest: "spec_unclaimed [''/cam1/camera_info'', ''/cam2/camera_info'']
       [''/cam1/image_raw'', ''/cam2/image_raw'', ''/cam2/image_raw/compressed'', ''/other/image_raw'']
     = [''/other/image_raw'']"
    by (simp add: spec_unclaimed_def suffix_def)
  show ?thesis
    by (simp only: handle_list_streams_eq list_camera_info_topics_eq cams imgs pairs rest)
      simp
qed

text \<open>
  C7. A camera info topic whose name does not end in \<open>/camera_info\<close> opens no group:
  the page with the topic is the page without it, with the single string \<open></li>\<close>
  written at the topic's place. No base is written and no image topic is claimed, so
  the groups behind it are what they are without it.
\<close>

theorem skipped_topic_contributes_no_group:
  assumes "datatype_name t = camera_info_message_type"
    and "\<not> ends_with (name t) ''/camera_info''"
  shows "handle_list_streams (pre @ t # post) request conn srv
           = (directory_reply conn
                (fst (list_camera_info_topics (names_of_type camera_info_message_type pre)
                        (names_of_type image_message_type (pre @ post)))
                 @ [''</li>'']
                 @ fst (list_camera_info_topics (names_of_type camera_info_message_type post)
                          (snd (list_camera_info_topics (names_of_type camera_info_message_type pre)
                                  (names_of_type image_message_type (pre @ post)))))),
              srv)
         \<and> handle_list_streams (pre @ post) request conn srv
           = (directory_reply conn
                (fst (list_camera_info_topics (names_of_type camera_info_message_type pre)
                        (names_of_type image_message_type (pre @ post)))
                 @ fst (list_camera_info_topics (names_of_type camera_info_message_type post)
                          (snd (list_camera_info_topics (names_of_type camera_info_message_type pre)
                                  (names_of_type image_message_type (pre @ post)))))),
              srv)"
proof -
  from assms(1) have ni: "datatype_name t \<noteq> image_message_type"
    using message_types_differ by simp
  have imgs: "names_of_type image_message_type (pre @ t # post)
              = names_of_type image_message_type (pre @ post)"
    using ni by (simp add: names_of_type_def)
  have cams: "names_of_type camera_info_message_type (pre @ t # post)
              = names_of_type camera_info_message_type pre
                @ name t # names_of_type camera_info_message_type post"
    using assms(1) by (simp add: names_of_type_def)
  have cams': "names_of_type camera_info_message_type (pre @ post)
              = names_of_type camera_info_message_type pre
                @ names_of_type camera_info_message_type post"
    by (rule names_of_type_append)
  show ?thesis
    unfolding handle_list_streams_eq imgs cams cams' list_camera_info_topics_append
    using assms(2) by (simp add: Let_def split: prod.splits)
qed

theorem skipped_topic_contributes_no_group_witness:
  "datatype_name sensor_info = camera_info_message_type
   \<and> \<not> ends_with (name sensor_info) ''/camera_info''
   \<and> handle_list_streams (sensor_info # sample_topics) (sample_request ''/'' []) 3 sample_server
     = (directory_reply 3
          ([''</li>'']
           @ render_entry (Group ''/cam1/'' [''/cam1/image_raw''])
           @ render_entry (Group ''/cam2/'' [''/cam2/image_raw'', ''/cam2/image_raw/compressed''])),
        sample_server)
   \<and> handle_list_streams sample_topics (sample_request ''/'' []) 3 sample_server
     = (directory_reply 3
          (render_entry (Group ''/cam1/'' [''/cam1/image_raw''])
           @ render_entry (Group ''/cam2/'' [''/cam2/image_raw'', ''/cam2/image_raw/compressed''])),
        sample_server)"
  using skipped_topic_contributes_no_group
    [OF sensor_info_facts, of "[]" sample_topics "sample_request ''/'' []" 3 sample_server]
  by (simp add: sensor_info_facts sample_groups names_of_type_def [of _ "[]"])

text \<open>
  C10. For every topic of the camera info type, wherever it stands among the discovered
  topics, the handler writes one closing \<open></li>\<close>: behind the group when the name ends in
  \<open>/camera_info\<close>, and on its own, with no \<open><li>\<close> before it, when it does not. When no
  camera info topic has the suffix, the list is one \<open></li>\<close> per topic and nothing else.
\<close>

theorem closing_li_for_every_camera_info_topic:
  "(datatype_name t = camera_info_message_type \<longrightarrow>
      handle_list_streams (pre @ t # post) request conn srv
        = (directory_reply conn
             (fst (list_camera_info_topics (names_of_type camera_info_message_type pre)
                     (names_of_type image_message_type (pre @ post)))
              @ (if ends_with (name t) ''/camera_info''
                 then [''<li>'', take (length (name t) - length ''camera_info'') (name t), ''<ul>'']
                      @ fst (list_image_topics
                               (take (length (name t) - length ''camera_info'') (name t))
                               (snd (list_camera_info_topics
                                       (names_of_type camera_info_message_type pre)
                                       (names_of_type image_message_type (pre @ post)))))
                      @ [''</ul>'']
                 else [])
              @ [''</li>'']
              @ fst (list_camera_info_topics (names_of_type camera_info_message_type post)
                       (if ends_with (name t) ''/camera_info''
                        then snd (list_image_topics
                                    (take (length (name t) - length ''camera_info'') (name t))
                                    (snd (list_camera_info_topics
                                            (names_of_type camera_info_message_type pre)
                                            (names_of_type image_message_type (pre @ post)))))
                        else snd (list_camera_info_topics
                                    (names_of_type camera_info_message_type pre)
                                    (names_of_type image_message_type (pre @ post)))))),
           srv))
   \<and> (list_all (\<lambda>c. \<not> ends_with c ''/camera_info'') cams \<longrightarrow>
        list_camera_info_topics cams imgs = (replicate (length cams) ''</li>'', imgs))"
proof (intro conjI impI)
  assume ty: "datatype_name t = camera_info_message_type"
  then have ni: "datatype_name t \<noteq> image_message_type"
    using message_types_differ by simp
  have imgs: "names_of_type image_message_type (pre @ t # post)
              = names_of_type image_message_type (pre @ post)"
    using ni by (simp add: names_of_type_def)
  have cams: "names_of_type camera_info_message_type (pre @ t # post)
              = names_of_type camera_info_message_type pre
                @ name t # names_of_type camera_info_message_type post"
    using ty by (simp add: names_of_type_def)
  show "handle_list_streams (pre @ t # post) request conn srv
        = (directory_reply conn
             (fst (list_camera_info_topics (names_of_type camera_info_message_type pre)
                     (names_of_type image_message_type (pre @ post)))
              @ (if ends_with (name t) ''/camera_info''
                 then [''<li>'', take (length (name t) - length ''camera_info'') (name t), ''<ul>'']
                      @ fst (list_image_topics
                               (take (length (name t) - length ''camera_info'') (name t))
                               (snd (list_camera_info_topics
                                       (names_of_type camera_info_message_type pre)
                                       (names_of_type image_message_type (pre @ post)))))
                      @ [''</ul>'']
                 else [])
              @ [''</li>'']
              @ fst (list_camera_info_topics (names_of_type camera_info_message_type post)
                       (if ends_with (name t) ''/camera_info''
                        then snd (list_image_topics
                                    (take (length (name t) - length ''camera_info'') (name t))
                                    (snd (list_camera_info_topics
                                            (names_of_type camera_info_message_type pre)
                                            (names_of_type image_message_type (pre @ post)))))
                        else snd (list_camera_info_topics
                                    (names_of_type camera_info_message_type pre)
                                    (names_of_type image_message_type (pre @ post)))))),
           srv)"
    unfolding handle_list_streams_eq imgs cams list_camera_info_topics_append
    by (simp add: Let_def split: prod.splits)
next
  assume "list_all (\<lambda>c. \<not> ends_with c ''/camera_info'') cams"
  then show "list_camera_info_topics cams imgs = (replicate (length cams) ''</li>'', imgs)"
    by (induction cams) simp_all
qed

theorem closing_li_for_every_camera_info_topic_witness:
  "datatype_name sensor_info = camera_info_message_type
   \<and> handle_list_streams (sample_topics @ [sensor_info]) (sample_request ''/'' []) 3 sample_server
     = (directory_reply 3
          (render_entry (Group ''/cam1/'' [''/cam1/image_raw''])
           @ render_entry (Group ''/cam2/'' [''/cam2/image_raw'', ''/cam2/image_raw/compressed''])
           @ [''</li>'']),
        sample_server)
   \<and> list_all (\<lambda>c. \<not> ends_with c ''/camera_info'') [''/sensor/info'', ''/camera_info_left'']
   \<and> list_camera_info_topics [''/sensor/info'', ''/camera_info_left''] [''/sensor/image_raw'']
     = ([''</li>'', ''</li>''], [''/sensor/image_raw''])"
proof -
  have h: "list_all (\<lambda>c. \<not> ends_with c ''/camera_info'') [''/sensor/info'', ''/camera_info_left'']"
    by (simp add: ends_with_def suffix_def)
  note t = closing_li_for_every_camera_info_topic
    [of sensor_info sample_topics "[]" "sample_request ''/'' []" 3 sample_server
       "[''/sensor/info'', ''/camera_info_left'']" "[''/sensor/image_raw'']"]
  from t h sensor_info_facts show ?thesis
    by (simp add: sample_groups names_of_type_def [of _ "[]"] numeral_2_eq_2)
qed

end
